theory Spec2Isabelle
  imports Complex_Main "HOL-Library.AList"
begin

text \<open>
  A model of the Optic SDK: the configuration and the lifecycle of the package
  \<^verbatim>\<open>optic\<close> (\<^verbatim>\<open>config.py\<close>, \<^verbatim>\<open>_core.py\<close>), and the discovery and host metrics
  modules that \<^verbatim>\<open>_core.py\<close> imports, taken from their twins in the package
  \<^verbatim>\<open>observex\<close> (\<^verbatim>\<open>instruments.py\<close>, \<^verbatim>\<open>system_metrics.py\<close>), which differ from
  \<^verbatim>\<open>optic\<close>'s by the brand name only.
\<close>

section \<open>Python values and exceptions\<close>

text \<open>
  The SDK is dynamically typed: a keyword option of \<^verbatim>\<open>init\<close> may carry any value,
  and \<^verbatim>\<open>setattr\<close> stores it in the configuration whatever its type. The values
  that matter are those below; a finite float is carried as a rational (no arithmetic
  is done on it before it is handed to the telemetry library). Strings are ASCII. The
  three named parameters of \<^verbatim>\<open>init\<close> are strings, as annotated; the value of a
  keyword option is one of the values below (not a class or a dictionary).
\<close>

datatype pyval =
    PNone
  | PBool bool
  | PInt int
  | PFloat rat
  | PStr string
  | PList "pyval list"

text \<open>Python truthiness (\<^verbatim>\<open>if v:\<close>, \<^verbatim>\<open>not v\<close>, \<^verbatim>\<open>a or b\<close>).\<close>

fun truthy :: "pyval \<Rightarrow> bool" where
  "truthy PNone = False"
| "truthy (PBool b) = b"
| "truthy (PInt i) = (i \<noteq> 0)"
| "truthy (PFloat q) = (q \<noteq> 0)"
| "truthy (PStr s) = (s \<noteq> [])"
| "truthy (PList xs) = (xs \<noteq> [])"

definition py_or :: "pyval \<Rightarrow> pyval \<Rightarrow> pyval" where
  "py_or a b = (if truthy a then a else b)"

text \<open>
  Exceptions: a class and the message \<^verbatim>\<open>str(e)\<close> gives. The classes are those the
  source names in an \<^verbatim>\<open>except\<close> clause or raises itself, and one more for every other
  subclass of \<^verbatim>\<open>Exception\<close>. \<^verbatim>\<open>ModuleNotFoundError\<close> is a subclass of
  \<^verbatim>\<open>ImportError\<close> and counts as one. The interpreter's control-flow signals that
  derive from \<^verbatim>\<open>BaseException\<close> only (\<^verbatim>\<open>KeyboardInterrupt\<close>, \<^verbatim>\<open>SystemExit\<close>)
  are not errors of a callee and are not modelled.
\<close>

datatype exc_class = ImportError | AttributeError | ValueError | TypeError | OtherException

datatype exc = Exc exc_class string

fun exc_class_of :: "exc \<Rightarrow> exc_class" where
  "exc_class_of (Exc c m) = c"

fun exc_str :: "exc \<Rightarrow> string" where
  "exc_str (Exc c m) = m"

section \<open>Configuration (\<^verbatim>\<open>optic/config.py\<close>)\<close>

text \<open>The dataclass \<^verbatim>\<open>OpticConfig\<close>. Its fields are not type-checked at run time.\<close>

record OpticConfig =
  api_key :: pyval
  service_name :: pyval
  endpoint :: pyval
  environment :: pyval
  service_version :: pyval
  auto_instrument_flag :: pyval
  enable_traces :: pyval
  enable_metrics :: pyval
  enable_logs :: pyval
  enable_system_metrics :: pyval
  system_metrics_interval_sec :: pyval
  export_interval_ms :: pyval
  log_level :: pyval
  excluded_urls :: pyval

text \<open>
  The fourteen declared fields, and their attribute names. The record field
  \<open>auto_instrument_flag\<close> is the attribute \<^verbatim>\<open>auto_instrument\<close> (the name is taken by
  the discovery function below).
\<close>

datatype field =
    Api_key | Service_name | Endpoint | Environment | Service_version
  | Auto_instrument | Enable_traces | Enable_metrics | Enable_logs
  | Enable_system_metrics | System_metrics_interval_sec | Export_interval_ms
  | Log_level | Excluded_urls

definition all_fields :: "field list" where
  "all_fields =
     [Api_key, Service_name, Endpoint, Environment, Service_version,
      Auto_instrument, Enable_traces, Enable_metrics, Enable_logs,
      Enable_system_metrics, System_metrics_interval_sec, Export_interval_ms,
      Log_level, Excluded_urls]"

fun field_name :: "field \<Rightarrow> string" where
  "field_name Api_key = ''api_key''"
| "field_name Service_name = ''service_name''"
| "field_name Endpoint = ''endpoint''"
| "field_name Environment = ''environment''"
| "field_name Service_version = ''service_version''"
| "field_name Auto_instrument = ''auto_instrument''"
| "field_name Enable_traces = ''enable_traces''"
| "field_name Enable_metrics = ''enable_metrics''"
| "field_name Enable_logs = ''enable_logs''"
| "field_name Enable_system_metrics = ''enable_system_metrics''"
| "field_name System_metrics_interval_sec = ''system_metrics_interval_sec''"
| "field_name Export_interval_ms = ''export_interval_ms''"
| "field_name Log_level = ''log_level''"
| "field_name Excluded_urls = ''excluded_urls''"

definition field_of_name :: "string \<Rightarrow> field option" where
  "field_of_name key = map_of (map (\<lambda>f. (field_name f, f)) all_fields) key"

text \<open>
  An instance has more attributes than its fields: the class method \<^verbatim>\<open>from_env\<close>
  and the methods and dunder attributes of a dataclass and of \<^verbatim>\<open>object\<close> (the list
  is CPython 3.11's; a later version adds names that behave like these). For three of
  them \<^verbatim>\<open>setattr\<close> raises whatever value of the model it is given:
  \<^verbatim>\<open>__class__\<close> wants a class and \<^verbatim>\<open>__dict__\<close> a dictionary (\<^verbatim>\<open>TypeError\<close>), and
  \<^verbatim>\<open>__weakref__\<close> is not writable (\<^verbatim>\<open>AttributeError\<close>). For the others it stores
  an instance attribute that shadows the class's and that the SDK never reads: no field
  changes.
\<close>

definition unsettable :: "string \<Rightarrow> exc option" where
  "unsettable key =
     (if key = ''__class__'' then Some (Exc TypeError ''__class__ must be set to a class'')
      else if key = ''__dict__'' then Some (Exc TypeError ''__dict__ must be set to a dictionary'')
      else if key = ''__weakref__''
      then Some (Exc AttributeError ''attribute __weakref__ of OpticConfig objects is not writable'')
      else None)"

definition other_attributes :: "string list" where
  "other_attributes =
     [''from_env'', ''__annotations__'', ''__class__'', ''__dataclass_fields__'',
      ''__dataclass_params__'', ''__delattr__'', ''__dict__'', ''__dir__'', ''__doc__'',
      ''__eq__'', ''__format__'', ''__ge__'', ''__getattribute__'', ''__getstate__'', ''__gt__'',
      ''__hash__'', ''__init__'', ''__init_subclass__'', ''__le__'', ''__lt__'',
      ''__match_args__'', ''__module__'', ''__ne__'', ''__new__'', ''__reduce__'',
      ''__reduce_ex__'', ''__repr__'', ''__setattr__'', ''__sizeof__'', ''__str__'',
      ''__subclasshook__'', ''__weakref__'']"

text \<open>\<^verbatim>\<open>hasattr(cfg, key)\<close>: a declared field or one of the other attributes.\<close>

definition hasattr_cfg :: "string \<Rightarrow> bool" where
  "hasattr_cfg key = (field_of_name key \<noteq> None \<or> key \<in> set other_attributes)"


fun set_field :: "OpticConfig \<Rightarrow> field \<Rightarrow> pyval \<Rightarrow> OpticConfig" where
  "set_field cfg Api_key v = cfg\<lparr>api_key := v\<rparr>"
| "set_field cfg Service_name v = cfg\<lparr>service_name := v\<rparr>"
| "set_field cfg Endpoint v = cfg\<lparr>endpoint := v\<rparr>"
| "set_field cfg Environment v = cfg\<lparr>environment := v\<rparr>"
| "set_field cfg Service_version v = cfg\<lparr>service_version := v\<rparr>"
| "set_field cfg Auto_instrument v = cfg\<lparr>auto_instrument_flag := v\<rparr>"
| "set_field cfg Enable_traces v = cfg\<lparr>enable_traces := v\<rparr>"
| "set_field cfg Enable_metrics v = cfg\<lparr>enable_metrics := v\<rparr>"
| "set_field cfg Enable_logs v = cfg\<lparr>enable_logs := v\<rparr>"
| "set_field cfg Enable_system_metrics v = cfg\<lparr>enable_system_metrics := v\<rparr>"
| "set_field cfg System_metrics_interval_sec v = cfg\<lparr>system_metrics_interval_sec := v\<rparr>"
| "set_field cfg Export_interval_ms v = cfg\<lparr>export_interval_ms := v\<rparr>"
| "set_field cfg Log_level v = cfg\<lparr>log_level := v\<rparr>"
| "set_field cfg Excluded_urls v = cfg\<lparr>excluded_urls := v\<rparr>"

text \<open>
  \<^verbatim>\<open>setattr(cfg, key, value)\<close> for a key that \<^verbatim>\<open>hasattr\<close> accepts: it raises for
  the three attributes above, sets the field when the key names one, and otherwise
  leaves every field as it is.
\<close>

definition setattr_cfg :: "OpticConfig \<Rightarrow> string \<Rightarrow> pyval \<Rightarrow> exc + OpticConfig" where
  "setattr_cfg cfg key v =
     (case unsettable key of
        Some e \<Rightarrow> Inl e
      | None \<Rightarrow> (case field_of_name key of Some f \<Rightarrow> Inr (set_field cfg f v) | None \<Rightarrow> Inr cfg))"

text \<open>
  The loop of \<^verbatim>\<open>from_env\<close> over \<^verbatim>\<open>overrides.items()\<close>, in insertion order:
  \<^verbatim>\<open>if hasattr(cfg, key): setattr(cfg, key, value)\<close>. An exception of \<^verbatim>\<open>setattr\<close>
  ends the loop and leaves \<^verbatim>\<open>from_env\<close>. A \<^verbatim>\<open>dict\<close> is an association list with
  distinct keys.
\<close>

fun apply_overrides :: "(string \<times> pyval) list \<Rightarrow> OpticConfig \<Rightarrow> exc + OpticConfig" where
  "apply_overrides [] cfg = Inr cfg"
| "apply_overrides ((key, v) # rest) cfg =
     (if hasattr_cfg key
      then (case setattr_cfg cfg key v of
              Inl e \<Rightarrow> Inl e
            | Inr cfg' \<Rightarrow> apply_overrides rest cfg')
      else apply_overrides rest cfg)"

text \<open>\<^verbatim>\<open>os.environ\<close> is a map from names to strings; \<^verbatim>\<open>os.getenv(name, default)\<close>.\<close>

definition getenv :: "(string \<rightharpoonup> string) \<Rightarrow> string \<Rightarrow> string \<Rightarrow> string" where
  "getenv environ name dflt = (case environ name of Some v \<Rightarrow> v | None \<Rightarrow> dflt)"

text \<open>
  The instance \<^verbatim>\<open>from_env\<close> constructs first: the five fields read from the
  environment, the other nine at their dataclass defaults.
\<close>

definition env_config :: "(string \<rightharpoonup> string) \<Rightarrow> OpticConfig" where
  "env_config environ =
       \<lparr> api_key = PStr (getenv environ ''OPTIC_API_KEY'' (getenv environ ''OTEL_API_KEY'' '''')),
         service_name =
           PStr (getenv environ ''OPTIC_SERVICE_NAME'' (getenv environ ''OTEL_SERVICE_NAME'' '''')),
         endpoint =
           PStr (getenv environ ''OPTIC_ENDPOINT''
                  (getenv environ ''OTEL_EXPORTER_OTLP_ENDPOINT'' ''http://localhost:8080'')),
         environment = PStr (getenv environ ''OPTIC_ENVIRONMENT'' ''local''),
         service_version = PStr (getenv environ ''OPTIC_SERVICE_VERSION'' ''''),
         auto_instrument_flag = PBool True,
         enable_traces = PBool True,
         enable_metrics = PBool True,
         enable_logs = PBool True,
         enable_system_metrics = PBool True,
         system_metrics_interval_sec = PFloat 15,
         export_interval_ms = PInt 10000,
         log_level = PStr ''INFO'',
         excluded_urls = PList [] \<rparr>"

text \<open>\<^verbatim>\<open>OpticConfig.from_env(**overrides)\<close>: that instance, then the loop.\<close>

definition from_env :: "(string \<rightharpoonup> string) \<Rightarrow> (string \<times> pyval) list \<Rightarrow> exc + OpticConfig" where
  "from_env environ overrides = apply_overrides overrides (env_config environ)"

text \<open>
  The first lines of \<^verbatim>\<open>init\<close>: keyword options that are \<^verbatim>\<open>None\<close> are dropped,
  and each of the three named parameters is stored under its key when it is non-empty
  (\<^verbatim>\<open>overrides["api_key"] = api_key\<close> replaces an entry in place or appends one).
\<close>

definition build_overrides ::
  "string \<Rightarrow> string \<Rightarrow> string \<Rightarrow> (string \<times> pyval) list \<Rightarrow> (string \<times> pyval) list" where
  "build_overrides api_key_arg service_name_arg endpoint_arg kwargs =
     (let overrides = filter (\<lambda>(k, v). v \<noteq> PNone) kwargs;
          overrides = (if api_key_arg \<noteq> [] then AList.update ''api_key'' (PStr api_key_arg) overrides
                       else overrides);
          overrides = (if service_name_arg \<noteq> []
                       then AList.update ''service_name'' (PStr service_name_arg) overrides
                       else overrides);
          overrides = (if endpoint_arg \<noteq> [] then AList.update ''endpoint'' (PStr endpoint_arg) overrides
                       else overrides)
      in overrides)"

definition resolve_config ::
  "(string \<rightharpoonup> string) \<Rightarrow> string \<Rightarrow> string \<Rightarrow> string \<Rightarrow> (string \<times> pyval) list
   \<Rightarrow> exc + OpticConfig" where
  "resolve_config environ api_key_arg service_name_arg endpoint_arg kwargs =
     from_env environ (build_overrides api_key_arg service_name_arg endpoint_arg kwargs)"

subsection \<open>The priority order, as the specification words it\<close>








section \<open>The telemetry library and the runtime environment\<close>

text \<open>
  Everything the SDK delegates: the OpenTelemetry constructors and setters, the
  providers' \<^verbatim>\<open>shutdown\<close>, \<^verbatim>\<open>importlib.import_module\<close>, the instrumentor classes
  and \<^verbatim>\<open>psutil\<close>. A call carries the arguments that identify it. A string built by
  an f-string is kept as its pieces, since the interpolated value may be of any type.
\<close>

datatype piece = Lit string | Val pyval

type_synonym fstring = "piece list"

type_synonym resource = "(string \<times> pyval) list"

datatype signal = Traces | Metrics | Logs

datatype severity = DEBUG | INFO | WARNING | ERROR

datatype call =
    Resource_create resource
  | OTLPSpanExporter fstring "(string \<times> fstring) list"
  | TracerProvider resource
  | BatchSpanProcessor
  | Add_span_processor
  | Set_tracer_provider
  | OTLPMetricExporter fstring "(string \<times> fstring) list"
  | PeriodicExportingMetricReader pyval
  | MeterProvider resource
  | Set_meter_provider
  | OTLPLogExporter fstring "(string \<times> fstring) list"
  | LoggerProvider resource
  | BatchLogRecordProcessor
  | Add_log_record_processor
  | LoggingHandler severity
  | AddHandler
  | Provider_shutdown signal
  | Import_module string
  | Getattr_module string string
  | Instantiate string string
  | Read_is_instrumented string string
  | Instrument string string "string option"
  | Get_meter string string
  | Create_observable_gauge string bool
  | Import_from string string
  | Cpu_percent
  | Virtual_memory
  | Disk_usage string

text \<open>
  What a caller can observe of a run: the external calls attempted, in order, the log
  records, and the registration of the exit hook.
\<close>

datatype event =
    Called call
  | Log string severity fstring
  | Atexit_register

text \<open>
  The environment of one call of the API. \<open>raises c\<close> is the exception the external
  call \<open>c\<close> raises, if any; the other fields are the values the environment returns.
  Within one run of \<^verbatim>\<open>init\<close>, \<^verbatim>\<open>shutdown\<close> or a callback no external call is made
  twice with the same arguments, so a function of the call describes every behaviour
  of the collaborators; different API calls may meet different environments.
\<close>

record world =
  os_environ :: "string \<rightharpoonup> string"
  raises :: "call \<Rightarrow> exc option"
  is_instrumented_by_opentelemetry :: "string \<Rightarrow> string \<Rightarrow> pyval"
  has_instrument :: "string \<Rightarrow> string \<Rightarrow> bool"
  cpu_percent :: rat
  virtual_memory_percent :: rat
  disk_usage_percent :: "string \<Rightarrow> rat"

text \<open>A computation that may raise, with the events it caused up to that point.\<close>

type_synonym 'a io = "(exc + 'a) \<times> event list"

definition io_return :: "'a \<Rightarrow> 'a io" where
  "io_return x = (Inr x, [])"

definition io_raise :: "exc \<Rightarrow> 'a io" where
  "io_raise e = (Inl e, [])"

definition io_emit :: "event \<Rightarrow> unit io" where
  "io_emit ev = (Inr (), [ev])"

definition io_bind :: "'a io \<Rightarrow> ('a \<Rightarrow> 'b io) \<Rightarrow> 'b io" where
  "io_bind m f =
     (case m of
        (Inl e, t) \<Rightarrow> (Inl e, t)
      | (Inr x, t) \<Rightarrow> (case f x of (r, t') \<Rightarrow> (r, t @ t')))"

text \<open>\<^verbatim>\<open>try: m  except <classes>: handler\<close>; an exception of another class propagates.\<close>

definition io_except :: "'a io \<Rightarrow> (exc \<Rightarrow> bool) \<Rightarrow> (exc \<Rightarrow> 'a io) \<Rightarrow> 'a io" where
  "io_except m handles handler =
     (case m of
        (Inl e, t) \<Rightarrow>
          (if handles e then (case handler e of (r, t') \<Rightarrow> (r, t @ t')) else (Inl e, t))
      | (Inr x, t) \<Rightarrow> (Inr x, t))"

definition attempt :: "world \<Rightarrow> call \<Rightarrow> unit io" where
  "attempt w c = ((case raises w c of Some e \<Rightarrow> Inl e | None \<Rightarrow> Inr ()), [Called c])"

definition isinstance :: "exc_class list \<Rightarrow> exc \<Rightarrow> bool" where
  "isinstance classes e = (exc_class_of e \<in> set classes)"

text \<open>\<^verbatim>\<open>except Exception\<close>: every exception of the model is an \<^verbatim>\<open>Exception\<close>.\<close>

definition is_Exception :: "exc \<Rightarrow> bool" where
  "is_Exception e = True"

section \<open>Auto-instrumentation (\<^verbatim>\<open>observex/instruments.py\<close>)\<close>

text \<open>The table, in its insertion order (the order \<^verbatim>\<open>.items()\<close> iterates in).\<close>

definition INSTRUMENTORS :: "(string \<times> string) list" where
  "INSTRUMENTORS =
     [(''flask'', ''opentelemetry.instrumentation.flask:FlaskInstrumentor''),
      (''django'', ''opentelemetry.instrumentation.django:DjangoInstrumentor''),
      (''fastapi'', ''opentelemetry.instrumentation.fastapi:FastAPIInstrumentor''),
      (''requests'', ''opentelemetry.instrumentation.requests:RequestsInstrumentor''),
      (''urllib3'', ''opentelemetry.instrumentation.urllib3:URLLib3Instrumentor''),
      (''sqlalchemy'', ''opentelemetry.instrumentation.sqlalchemy:SQLAlchemyInstrumentor''),
      (''pymysql'', ''opentelemetry.instrumentation.pymysql:PyMySQLInstrumentor''),
      (''psycopg2'', ''opentelemetry.instrumentation.psycopg2:Psycopg2Instrumentor''),
      (''redis'', ''opentelemetry.instrumentation.redis:RedisInstrumentor''),
      (''celery'', ''opentelemetry.instrumentation.celery:CeleryInstrumentor''),
      (''httpx'', ''opentelemetry.instrumentation.httpx:HTTPXClientInstrumentor''),
      (''aiohttp'', ''opentelemetry.instrumentation.aiohttp_client:AioHttpClientInstrumentor''),
      (''kafka'', ''opentelemetry.instrumentation.kafka:KafkaInstrumentor'')]"

text \<open>\<^verbatim>\<open>s.rsplit(sep, 1)\<close>: split at the last separator, if there is one.\<close>

definition rsplit1 :: "char \<Rightarrow> string \<Rightarrow> string list" where
  "rsplit1 sep s =
     (if sep \<in> set s
      then [rev (tl (dropWhile (\<lambda>c. c \<noteq> sep) (rev s))), rev (takeWhile (\<lambda>c. c \<noteq> sep) (rev s))]
      else [s])"

fun join_strs :: "string \<Rightarrow> string list \<Rightarrow> string" where
  "join_strs sep [] = []"
| "join_strs sep [x] = x"
| "join_strs sep (x # y # ys) = x @ sep @ join_strs sep (y # ys)"

fun is_PStr :: "pyval \<Rightarrow> bool" where
  "is_PStr (PStr s) = True"
| "is_PStr v = False"

fun str_of :: "pyval \<Rightarrow> string" where
  "str_of (PStr s) = s"
| "str_of v = []"

text \<open>
  \<^verbatim>\<open>sep.join(v)\<close>: a list of strings is joined, a string is joined character by
  character, and anything else is a \<^verbatim>\<open>TypeError\<close>.
\<close>

fun py_join :: "string \<Rightarrow> pyval \<Rightarrow> exc + string" where
  "py_join sep (PList xs) =
     (if list_all is_PStr xs then Inr (join_strs sep (map str_of xs))
      else Inl (Exc TypeError ''sequence item: expected str instance''))"
| "py_join sep (PStr s) = Inr (join_strs sep (map (\<lambda>c. [c]) s))"
| "py_join sep v = Inl (Exc TypeError ''can only join an iterable'')"

text \<open>
  The keyword arguments of \<^verbatim>\<open>instrument\<close>: \<^verbatim>\<open>excluded_urls\<close>, joined by commas,
  when the list is non-empty and the instrumentor has the method.
\<close>

definition instrument_kwargs :: "world \<Rightarrow> pyval \<Rightarrow> string \<Rightarrow> string \<Rightarrow> (string option) io" where
  "instrument_kwargs w excluded module_path class_name =
     (if truthy excluded \<and> has_instrument w module_path class_name
      then (case py_join '','' excluded of
              Inl e \<Rightarrow> io_raise e
            | Inr joined \<Rightarrow> io_return (Some joined))
      else io_return None)"

definition call_instrument :: "world \<Rightarrow> string \<Rightarrow> string \<Rightarrow> string option \<Rightarrow> unit io" where
  "call_instrument w module_path class_name kw =
     (if has_instrument w module_path class_name
      then attempt w (Instrument module_path class_name kw)
      else io_raise (Exc AttributeError ''object has no attribute instrument''))"

text \<open>
  The body of the third \<^verbatim>\<open>try\<close>: construct the instrumentor and, unless it reports
  itself instrumented, call \<^verbatim>\<open>instrument\<close>. The result says whether
  \<^verbatim>\<open>instrumented.append(lib_name)\<close> was reached.
\<close>

definition apply_adapter :: "world \<Rightarrow> pyval \<Rightarrow> string \<Rightarrow> string \<Rightarrow> bool io" where
  "apply_adapter w excluded module_path class_name =
     io_bind (attempt w (Instantiate module_path class_name)) (\<lambda>_.
     io_bind (attempt w (Read_is_instrumented module_path class_name)) (\<lambda>_.
       if \<not> truthy (is_instrumented_by_opentelemetry w module_path class_name)
       then io_bind (instrument_kwargs w excluded module_path class_name) (\<lambda>kw.
            io_bind (call_instrument w module_path class_name kw) (\<lambda>_.
            io_return True))
       else io_return False))"

text \<open>The body of the second \<^verbatim>\<open>try\<close>: import the adapter's module and get its class.\<close>

definition resolve_adapter :: "world \<Rightarrow> string \<Rightarrow> string \<Rightarrow> unit io" where
  "resolve_adapter w module_path class_name =
     io_bind (attempt w (Import_module module_path)) (\<lambda>_.
     attempt w (Getattr_module module_path class_name))"

definition logger_name :: string where
  "logger_name = ''observex.instruments''"

text \<open>\<^verbatim>\<open>logger.warning(f"Failed to instrument {lib_name}: {e}")\<close>\<close>

definition failure_warning :: "string \<Rightarrow> exc \<Rightarrow> event" where
  "failure_warning lib_name e =
     Log logger_name WARNING
       [Lit ''Failed to instrument '', Val (PStr lib_name), Lit '': '', Val (PStr (exc_str e))]"

text \<open>
  One iteration of the loop, after unpacking \<^verbatim>\<open>rsplit\<close>. The result is \<open>True\<close> when
  the library was instrumented; \<^verbatim>\<open>continue\<close> and a caught failure give \<open>False\<close>.
\<close>

definition instrument_with :: "world \<Rightarrow> pyval \<Rightarrow> string \<Rightarrow> string \<Rightarrow> string \<Rightarrow> bool io" where
  "instrument_with w excluded lib_name module_path class_name =
     io_bind
       (io_except
          (io_bind (resolve_adapter w module_path class_name) (\<lambda>_. io_return True))
          (isinstance [ImportError, AttributeError])
          (\<lambda>e. io_bind
                 (io_emit (Log logger_name DEBUG
                    [Lit ''Instrumentor not available for '', Val (PStr lib_name), Lit '', skipping'']))
                 (\<lambda>_. io_return False)))
       (\<lambda>available.
          if available
          then io_except (apply_adapter w excluded module_path class_name) is_Exception
                 (\<lambda>e. io_bind (io_emit (failure_warning lib_name e)) (\<lambda>_. io_return False))
          else io_return False)"

definition instrument_entry :: "world \<Rightarrow> pyval \<Rightarrow> string \<times> string \<Rightarrow> bool io" where
  "instrument_entry w excluded entry =
     (case entry of (lib_name, instrumentor_path) \<Rightarrow>
        io_bind
          (io_except
             (io_bind (attempt w (Import_module lib_name)) (\<lambda>_. io_return True))
             (isinstance [ImportError])
             (\<lambda>e. io_return False))
          (\<lambda>installed.
             if installed
             then (case rsplit1 CHR '':'' instrumentor_path of
                     [module_path, class_name] \<Rightarrow>
                       instrument_with w excluded lib_name module_path class_name
                   | _ \<Rightarrow> io_raise (Exc ValueError ''not enough values to unpack (expected 2, got 1)''))
             else io_return False))"

fun instrument_loop ::
  "world \<Rightarrow> pyval \<Rightarrow> (string \<times> string) list \<Rightarrow> string list \<Rightarrow> (string list) io" where
  "instrument_loop w excluded [] instrumented = io_return instrumented"
| "instrument_loop w excluded (entry # rest) instrumented =
     io_bind (instrument_entry w excluded entry) (\<lambda>applied.
     instrument_loop w excluded rest
       (if applied then instrumented @ [fst entry] else instrumented))"

definition auto_instrument_over ::
  "(string \<times> string) list \<Rightarrow> world \<Rightarrow> pyval \<Rightarrow> unit io" where
  "auto_instrument_over registry w excluded_urls_arg =
     (let excluded = py_or excluded_urls_arg (PList [])
      in io_bind (instrument_loop w excluded registry []) (\<lambda>instrumented.
         if instrumented \<noteq> []
         then io_emit (Log logger_name INFO
                [Lit ''Auto-instrumented: '', Val (PStr (join_strs '', '' instrumented))])
         else io_return ()))"

definition auto_instrument :: "world \<Rightarrow> pyval \<Rightarrow> unit io" where
  "auto_instrument w excluded_urls_arg = auto_instrument_over INSTRUMENTORS w excluded_urls_arg"

section \<open>Host metrics (\<^verbatim>\<open>observex/system_metrics.py\<close>)\<close>

datatype observation = Observation rat

definition metrics_logger :: string where
  "metrics_logger = ''observex.system_metrics''"

text \<open>
  The three callbacks. Each body is one \<^verbatim>\<open>try\<close>: import \<^verbatim>\<open>Observation\<close>, read
  the probe, divide by 100 and return the one observation; \<^verbatim>\<open>except Exception\<close>
  returns the empty list. The probe's value is taken as exact (the rounding of the
  float division is not modelled).
\<close>

definition cpu_callback :: "world \<Rightarrow> (observation list) io" where
  "cpu_callback w =
     io_except
       (io_bind (attempt w (Import_from ''opentelemetry.metrics'' ''Observation'')) (\<lambda>_.
        io_bind (attempt w Cpu_percent) (\<lambda>_.
        io_return [Observation (cpu_percent w / 100)])))
       is_Exception
       (\<lambda>e. io_return [])"

definition memory_callback :: "world \<Rightarrow> (observation list) io" where
  "memory_callback w =
     io_except
       (io_bind (attempt w (Import_from ''opentelemetry.metrics'' ''Observation'')) (\<lambda>_.
        io_bind (attempt w Virtual_memory) (\<lambda>_.
        io_return [Observation (virtual_memory_percent w / 100)])))
       is_Exception
       (\<lambda>e. io_return [])"

definition disk_callback :: "world \<Rightarrow> (observation list) io" where
  "disk_callback w =
     io_except
       (io_bind (attempt w (Import_from ''opentelemetry.metrics'' ''Observation'')) (\<lambda>_.
        io_bind (attempt w (Disk_usage ''/'')) (\<lambda>_.
        io_return [Observation (disk_usage_percent w ''/'' / 100)])))
       is_Exception
       (\<lambda>e. io_return [])"

fun io_seq :: "unit io list \<Rightarrow> unit io" where
  "io_seq [] = io_return ()"
| "io_seq (m # ms) = io_bind m (\<lambda>_. io_seq ms)"

text \<open>
  \<^verbatim>\<open>start_system_metrics(interval_sec)\<close>. Without \<^verbatim>\<open>psutil\<close> it logs at debug level
  and returns. Otherwise it imports \<^verbatim>\<open>metrics\<close>, gets a meter, creates the three
  gauges without callbacks and then again with them, and logs. The interval is not
  used by the body.
\<close>

definition start_system_metrics :: "world \<Rightarrow> pyval \<Rightarrow> unit io" where
  "start_system_metrics w interval_sec =
     io_bind
       (io_except
          (io_bind (attempt w (Import_module ''psutil'')) (\<lambda>_. io_return True))
          (isinstance [ImportError])
          (\<lambda>e. io_bind
                 (io_emit (Log metrics_logger DEBUG [Lit ''psutil not installed, system metrics disabled'']))
                 (\<lambda>_. io_return False)))
       (\<lambda>available.
          if available
          then io_seq
                 [attempt w (Import_from ''opentelemetry'' ''metrics''),
                  attempt w (Get_meter ''observex.system'' ''0.1.0''),
                  attempt w (Create_observable_gauge ''system.cpu.utilization'' False),
                  attempt w (Create_observable_gauge ''system.memory.utilization'' False),
                  attempt w (Create_observable_gauge ''system.disk.utilization'' False),
                  attempt w (Create_observable_gauge ''system.cpu.utilization'' True),
                  attempt w (Create_observable_gauge ''system.memory.utilization'' True),
                  attempt w (Create_observable_gauge ''system.disk.utilization'' True),
                  io_emit (Log metrics_logger INFO [Lit ''System metrics collection started''])]
          else io_return ())"

section \<open>The lifecycle (\<^verbatim>\<open>optic/_core.py\<close>)\<close>

text \<open>
  The module's globals \<^verbatim>\<open>_initialized\<close>, \<^verbatim>\<open>_tracer_provider\<close>,
  \<^verbatim>\<open>_meter_provider\<close> and \<^verbatim>\<open>_logger_provider\<close>, and the events observed so far.
  A provider handle records the signal and the resource it was built with.
\<close>

datatype provider = Provider signal resource

record sdk_state =
  initialized :: bool
  tracer_provider :: "provider option"
  meter_provider :: "provider option"
  logger_provider :: "provider option"
  effects :: "event list"

definition is_initialized :: "sdk_state \<Rightarrow> bool" where
  "is_initialized s = initialized s"

text \<open>
  The statements of \<^verbatim>\<open>init\<close> and \<^verbatim>\<open>shutdown\<close>: an external call (which may
  raise), an assignment to one of the globals, an effect that cannot raise, a
  \<^verbatim>\<open>raise\<close>, and a call of one of the SDK's own procedures above.
\<close>

datatype action =
    Do call
  | Assign signal provider
  | Set_initialized bool
  | Emit event
  | Raise exc
  | Sub "unit io"

fun assign :: "signal \<Rightarrow> provider \<Rightarrow> sdk_state \<Rightarrow> sdk_state" where
  "assign Traces p s = s\<lparr>tracer_provider := Some p\<rparr>"
| "assign Metrics p s = s\<lparr>meter_provider := Some p\<rparr>"
| "assign Logs p s = s\<lparr>logger_provider := Some p\<rparr>"

fun exec :: "world \<Rightarrow> action \<Rightarrow> sdk_state \<Rightarrow> (exc + unit) \<times> sdk_state" where
  "exec w (Do c) s =
     ((case raises w c of Some e \<Rightarrow> Inl e | None \<Rightarrow> Inr ()), s\<lparr>effects := effects s @ [Called c]\<rparr>)"
| "exec w (Assign sig p) s = (Inr (), assign sig p s)"
| "exec w (Set_initialized b) s = (Inr (), s\<lparr>initialized := b\<rparr>)"
| "exec w (Emit ev) s = (Inr (), s\<lparr>effects := effects s @ [ev]\<rparr>)"
| "exec w (Raise e) s = (Inl e, s)"
| "exec w (Sub m) s = (fst m, s\<lparr>effects := effects s @ snd m\<rparr>)"

text \<open>Statements in sequence: the first exception ends the run and reaches the caller.\<close>

fun run :: "world \<Rightarrow> action list \<Rightarrow> sdk_state \<Rightarrow> (exc + unit) \<times> sdk_state" where
  "run w [] s = (Inr (), s)"
| "run w (a # as) s =
     (case exec w a s of
        (Inl e, s') \<Rightarrow> (Inl e, s')
      | (Inr u, s') \<Rightarrow> run w as s')"

definition make_resource :: "OpticConfig \<Rightarrow> resource" where
  "make_resource cfg =
     [(''service.name'', service_name cfg),
      (''deployment.environment'', environment cfg),
      (''service.version'', py_or (service_version cfg) (PStr ''unknown'')),
      (''telemetry.sdk.name'', PStr ''optic-sdk''),
      (''telemetry.sdk.version'', PStr ''0.1.0'')]"

definition headers :: "OpticConfig \<Rightarrow> (string \<times> fstring) list" where
  "headers cfg = [(''Authorization'', [Lit ''Bearer '', Val (api_key cfg)])]"

text \<open>The Python-logging bridge: \<^verbatim>\<open>log_levels.get(cfg.log_level.upper(), logging.INFO)\<close>.\<close>

definition upper_char :: "char \<Rightarrow> char" where
  "upper_char c =
     (case map_of (zip ''abcdefghijklmnopqrstuvwxyz'' ''ABCDEFGHIJKLMNOPQRSTUVWXYZ'') c of
        Some u \<Rightarrow> u
      | None \<Rightarrow> c)"

definition upper :: "string \<Rightarrow> string" where
  "upper s = map upper_char s"

definition log_levels :: "(string \<times> severity) list" where
  "log_levels = [(''DEBUG'', DEBUG), (''INFO'', INFO), (''WARNING'', WARNING), (''ERROR'', ERROR)]"

definition bridge_level :: "string \<Rightarrow> severity" where
  "bridge_level name = (case map_of log_levels (upper name) of Some l \<Rightarrow> l | None \<Rightarrow> INFO)"

text \<open>Only a string has \<^verbatim>\<open>.upper()\<close>; on another value the attribute lookup raises.\<close>

definition logging_bridge :: "OpticConfig \<Rightarrow> action list" where
  "logging_bridge cfg =
     (case log_level cfg of
        PStr name \<Rightarrow> [Do (LoggingHandler (bridge_level name)), Do AddHandler]
      | v \<Rightarrow> [Raise (Exc AttributeError ''object has no attribute upper'')])"

definition traces_section :: "OpticConfig \<Rightarrow> action list" where
  "traces_section cfg =
     (if truthy (enable_traces cfg)
      then [Do (OTLPSpanExporter [Val (endpoint cfg), Lit ''/otlp/v1/traces''] (headers cfg)),
            Do (TracerProvider (make_resource cfg)),
            Assign Traces (Provider Traces (make_resource cfg)),
            Do BatchSpanProcessor,
            Do Add_span_processor,
            Do Set_tracer_provider]
      else [])"

definition metrics_section :: "OpticConfig \<Rightarrow> action list" where
  "metrics_section cfg =
     (if truthy (enable_metrics cfg)
      then [Do (OTLPMetricExporter [Val (endpoint cfg), Lit ''/otlp/v1/metrics''] (headers cfg)),
            Do (PeriodicExportingMetricReader (export_interval_ms cfg)),
            Do (MeterProvider (make_resource cfg)),
            Assign Metrics (Provider Metrics (make_resource cfg)),
            Do Set_meter_provider]
      else [])"

definition logs_section :: "OpticConfig \<Rightarrow> action list" where
  "logs_section cfg =
     (if truthy (enable_logs cfg)
      then [Do (OTLPLogExporter [Val (endpoint cfg), Lit ''/otlp/v1/logs''] (headers cfg)),
            Do (LoggerProvider (make_resource cfg)),
            Assign Logs (Provider Logs (make_resource cfg)),
            Do BatchLogRecordProcessor,
            Do Add_log_record_processor]
           @ logging_bridge cfg
      else [])"

definition system_metrics_section :: "world \<Rightarrow> OpticConfig \<Rightarrow> action list" where
  "system_metrics_section w cfg =
     (if truthy (enable_system_metrics cfg) \<and> truthy (enable_metrics cfg)
      then [Sub (start_system_metrics w (system_metrics_interval_sec cfg))]
      else [])"

definition auto_instrumentation_section :: "world \<Rightarrow> OpticConfig \<Rightarrow> action list" where
  "auto_instrumentation_section w cfg =
     (if truthy (auto_instrument_flag cfg)
      then [Sub (auto_instrument w (excluded_urls cfg))]
      else [])"

text \<open>The statements of \<^verbatim>\<open>init\<close> that build the subsystems, up to discovery.\<close>

definition construction :: "world \<Rightarrow> OpticConfig \<Rightarrow> action list" where
  "construction w cfg =
     [Do (Resource_create (make_resource cfg))]
     @ traces_section cfg
     @ metrics_section cfg
     @ logs_section cfg
     @ system_metrics_section w cfg
     @ auto_instrumentation_section w cfg"

text \<open>The last statements of \<^verbatim>\<open>init\<close>: the flag, the exit hook, the log record.\<close>

definition completion :: "OpticConfig \<Rightarrow> action list" where
  "completion cfg =
     [Set_initialized True,
      Emit Atexit_register,
      Emit (Log ''optic'' INFO
        [Lit ''Optic SDK initialized: service='', Val (service_name cfg),
         Lit '', endpoint='', Val (endpoint cfg),
         Lit '', traces='', Val (enable_traces cfg),
         Lit '', metrics='', Val (enable_metrics cfg),
         Lit '', logs='', Val (enable_logs cfg)])]"

definition api_key_required :: string where
  "api_key_required = ''Optic API key is required. Pass api_key= or set OPTIC_API_KEY env var.''"

definition service_name_required :: string where
  "service_name_required =
     ''Service name is required. Pass service_name= or set OPTIC_SERVICE_NAME env var.''"

definition init ::
  "world \<Rightarrow> string \<Rightarrow> string \<Rightarrow> string \<Rightarrow> (string \<times> pyval) list \<Rightarrow> sdk_state
   \<Rightarrow> (exc + unit) \<times> sdk_state" where
  "init w api_key_arg service_name_arg endpoint_arg kwargs s =
     (if initialized s then (Inr (), s)
      else
        (case resolve_config (os_environ w) api_key_arg service_name_arg endpoint_arg kwargs of
           Inl e \<Rightarrow> (Inl e, s)
         | Inr cfg \<Rightarrow>
             if \<not> truthy (api_key cfg)
             then (Inl (Exc ValueError api_key_required), s)
             else if \<not> truthy (service_name cfg)
             then (Inl (Exc ValueError service_name_required), s)
             else run w (construction w cfg @ completion cfg) s))"

text \<open>
  \<^verbatim>\<open>shutdown\<close>: nothing when not initialized; else the \<^verbatim>\<open>shutdown\<close> of each
  provider whose global is set, tracer, meter, logger, and then the flag. Only
  \<^verbatim>\<open>_initialized\<close> is declared \<^verbatim>\<open>global\<close> and assigned.
\<close>

definition owned_shutdowns :: "sdk_state \<Rightarrow> call list" where
  "owned_shutdowns s =
     (if tracer_provider s \<noteq> None then [Provider_shutdown Traces] else [])
     @ (if meter_provider s \<noteq> None then [Provider_shutdown Metrics] else [])
     @ (if logger_provider s \<noteq> None then [Provider_shutdown Logs] else [])"

definition shutdown :: "world \<Rightarrow> sdk_state \<Rightarrow> (exc + unit) \<times> sdk_state" where
  "shutdown w s =
     (if \<not> initialized s then (Inr (), s)
      else run w (map Do (owned_shutdowns s) @ [Set_initialized False]) s)"

text \<open>The state of a fresh process.\<close>

definition fresh :: sdk_state where
  "fresh = \<lparr> initialized = False, tracer_provider = None, meter_provider = None,
             logger_provider = None, effects = [] \<rparr>"

section \<open>Notions used to state the properties\<close>

text \<open>A sequence of calls of \<^verbatim>\<open>init\<close>, each with its own environment and arguments.\<close>

type_synonym init_args = "world \<times> string \<times> string \<times> string \<times> (string \<times> pyval) list"

fun init_calls :: "init_args list \<Rightarrow> sdk_state \<Rightarrow> (exc + unit) list \<times> sdk_state" where
  "init_calls [] s = ([], s)"
| "init_calls ((w, api_key_arg, service_name_arg, endpoint_arg, kwargs) # rest) s =
     (case init w api_key_arg service_name_arg endpoint_arg kwargs s of
        (r, s') \<Rightarrow> (case init_calls rest s' of (rs, s'') \<Rightarrow> (r # rs, s'')))"





fun is_assign :: "action \<Rightarrow> bool" where
  "is_assign (Assign sig p) = True"
| "is_assign a = False"

fun trace_of :: "action \<Rightarrow> event list" where
  "trace_of (Do c) = [Called c]"
| "trace_of (Emit ev) = [ev]"
| "trace_of (Sub m) = snd m"
| "trace_of a = []"

fun assigned :: "signal \<Rightarrow> action list \<Rightarrow> provider option \<Rightarrow> provider option" where
  "assigned sig [] p = p"
| "assigned sig (Assign sig' q # as) p = assigned sig as (if sig' = sig then Some q else p)"
| "assigned sig (a # as) p = assigned sig as p"

fun slot :: "signal \<Rightarrow> sdk_state \<Rightarrow> provider option" where
  "slot Traces s = tracer_provider s"
| "slot Metrics s = meter_provider s"
| "slot Logs s = logger_provider s"





text \<open>The events of a run that construct a logging bridge handler.\<close>

fun is_handler :: "event \<Rightarrow> bool" where
  "is_handler (Called (LoggingHandler l)) = True"
| "is_handler ev = False"

text \<open>
  Discovery probes a library and its adapter by importing them. The outcomes the
  \<^verbatim>\<open>except\<close> clauses of the two probes name: the import of the library succeeds or
  raises \<^verbatim>\<open>ImportError\<close>; the import of the adapter's module and the lookup of its
  class succeed or raise \<^verbatim>\<open>ImportError\<close> or \<^verbatim>\<open>AttributeError\<close>.
\<close>

definition expected_failure :: "exc_class list \<Rightarrow> exc option \<Rightarrow> bool" where
  "expected_failure classes r = (case r of None \<Rightarrow> True | Some e \<Rightarrow> isinstance classes e)"

definition probes_as_expected :: "world \<Rightarrow> string \<times> string \<Rightarrow> bool" where
  "probes_as_expected w entry =
     (case entry of (lib_name, instrumentor_path) \<Rightarrow>
        expected_failure [ImportError] (raises w (Import_module lib_name))
        \<and> (case rsplit1 CHR '':'' instrumentor_path of
              [module_path, class_name] \<Rightarrow>
                expected_failure [ImportError, AttributeError] (raises w (Import_module module_path))
                \<and> expected_failure [ImportError, AttributeError]
                     (raises w (Getattr_module module_path class_name))
            | _ \<Rightarrow> True))"

definition well_formed :: "string \<times> string \<Rightarrow> bool" where
  "well_formed entry = (length (rsplit1 CHR '':'' (snd entry)) = 2)"

text \<open>The loop reaches the third \<^verbatim>\<open>try\<close> for this library: both probes succeeded.\<close>

definition adapter_reached :: "world \<Rightarrow> string \<Rightarrow> string \<Rightarrow> string \<Rightarrow> bool" where
  "adapter_reached w lib_name module_path class_name =
     (raises w (Import_module lib_name) = None
      \<and> raises w (Import_module module_path) = None
      \<and> raises w (Getattr_module module_path class_name) = None)"

section \<open>Example environments\<close>



text \<open>No environment variable is set and no external call raises.\<close>

definition quiet :: world where
  "quiet = \<lparr> os_environ = Map.empty,
             raises = (\<lambda>c. None),
             is_instrumented_by_opentelemetry = (\<lambda>m c. PBool False),
             has_instrument = (\<lambda>m c. True),
             cpu_percent = 25, virtual_memory_percent = 50, disk_usage_percent = (\<lambda>p. 75) \<rparr>"

text \<open>A call of \<^verbatim>\<open>init\<close> with the three signals on, the sampler and discovery off.\<close>

definition kwargs_core :: "(string \<times> pyval) list" where
  "kwargs_core = [(''auto_instrument'', PBool False), (''enable_system_metrics'', PBool False)]"

text \<open>The configuration that call resolves to.\<close>

definition cfg_core :: OpticConfig where
  "cfg_core =
     (env_config Map.empty)
       \<lparr>api_key := PStr ''k'', service_name := PStr ''svc'',
        auto_instrument_flag := PBool False, enable_system_metrics := PBool False\<rparr>"

definition after_init :: sdk_state where
  "after_init = snd (init quiet ''k'' ''svc'' [] kwargs_core fresh)"

text \<open>The meter provider's \<^verbatim>\<open>shutdown\<close> raises.\<close>

definition shutdown_error :: exc where
  "shutdown_error = Exc OtherException ''MeterProvider.shutdown failed''"

definition shutdown_fails :: world where
  "shutdown_fails =
     quiet\<lparr>raises := (\<lambda>c. if c = Provider_shutdown Metrics then Some shutdown_error else None)\<rparr>"

text \<open>The constructor of the metric exporter raises.\<close>

definition exporter_error :: exc where
  "exporter_error = Exc OtherException ''invalid endpoint''"

definition metrics_fail :: world where
  "metrics_fail =
     quiet\<lparr>raises := (\<lambda>c. case c of OTLPMetricExporter u h \<Rightarrow> Some exporter_error | _ \<Rightarrow> None)\<rparr>"

text \<open>
  No library is installed but \<^verbatim>\<open>flask\<close>, and importing it raises an exception that
  is not an \<^verbatim>\<open>ImportError\<close>.
\<close>

definition import_error :: exc where
  "import_error = Exc ImportError ''No module named''"

definition broken_error :: exc where
  "broken_error = Exc OtherException ''invalid syntax''"

definition broken_library :: world where
  "broken_library =
     quiet\<lparr>raises := (\<lambda>c. case c of
                         Import_module m \<Rightarrow> Some (if m = ''flask'' then broken_error else import_error)
                       | _ \<Rightarrow> None)\<rparr>"

text \<open>
  Only \<^verbatim>\<open>requests\<close> and its adapter are installed, and the adapter's
  \<^verbatim>\<open>instrument\<close> raises.
\<close>

definition adapter_error :: exc where
  "adapter_error = Exc OtherException ''boom''"

definition partial_install :: world where
  "partial_install =
     quiet\<lparr>raises := (\<lambda>c. case c of
                         Import_module m \<Rightarrow>
                           (if m = ''requests'' \<or> m = ''opentelemetry.instrumentation.requests''
                            then None else Some import_error)
                       | Instrument m cl kw \<Rightarrow> Some adapter_error
                       | _ \<Rightarrow> None)\<rparr>"

text \<open>The three probes of \<^verbatim>\<open>psutil\<close> raise.\<close>

definition probe_error :: exc where
  "probe_error = Exc OtherException ''probe unavailable''"

definition probes_down :: world where
  "probes_down =
     quiet\<lparr>raises := (\<lambda>c. case c of
                         Cpu_percent \<Rightarrow> Some probe_error
                       | Virtual_memory \<Rightarrow> Some probe_error
                       | Disk_usage path \<Rightarrow> Some probe_error
                       | _ \<Rightarrow> None)\<rparr>"

text \<open>A call of \<^verbatim>\<open>init\<close> with a log level that is none of the four names.\<close>

definition kwargs_verbose :: "(string \<times> pyval) list" where
  "kwargs_verbose = (''log_level'', PStr ''Verbose'') # kwargs_core"

definition cfg_verbose :: OpticConfig where
  "cfg_verbose = cfg_core\<lparr>log_level := PStr ''Verbose''\<rparr>"




text \<open>A keyword option that names an attribute \<^verbatim>\<open>setattr\<close> rejects.\<close>

definition kwargs_dunder :: "(string \<times> pyval) list" where
  "kwargs_dunder = [(''__class__'', PInt 5)]"

section \<open>Properties\<close>





lemma field_settable: "unsettable (field_name f) = None"
  by (cases f) (simp_all add: unsettable_def)

subsection \<open>Configuration resolution\<close>




lemma apply_overrides_raises:
  "unsettable k = Some e \<Longrightarrow> k \<in> set other_attributes \<Longrightarrow>
   apply_overrides ((k, v) # rest) cfg = Inl e"
  by (simp add: hasattr_cfg_def setattr_cfg_def)








lemma from_env_no_overrides: "from_env environ [] = Inr (env_config environ)"
  by (simp add: from_env_def)



lemmas config_eval = resolve_config_def build_overrides_def from_env_def env_config_def
  hasattr_cfg_def setattr_cfg_def unsettable_def field_of_name_def all_fields_def getenv_def






subsection \<open>Statements in sequence\<close>

lemma run_append:
  "run w (xs @ ys) s =
     (case run w xs s of (Inl e, s') \<Rightarrow> (Inl e, s') | (Inr u, s') \<Rightarrow> run w ys s')"
  by (induction xs arbitrary: s) (auto split: prod.splits sum.splits)



lemma exec_slot:
  "slot sig (snd (exec w a s)) = assigned sig [a] (slot sig s)"
proof (cases a)
  case (Assign sig' p)
  then show ?thesis by (cases sig; cases sig') simp_all
qed (cases sig; simp)+

lemma run_success_slot:
  "run w as s = (Inr u, s') \<Longrightarrow> slot sig s' = assigned sig as (slot sig s)"
proof (induction as arbitrary: s)
  case Nil
  then show ?case by simp
next
  case (Cons a as)
  obtain r s1 where ex: "exec w a s = (r, s1)" by (cases "exec w a s")
  with Cons.prems obtain u' where r: "r = Inr u'" and rest: "run w as s1 = (Inr u, s')"
    by (cases r) simp_all
  from exec_slot [of sig w a s] ex have "slot sig s1 = assigned sig [a] (slot sig s)" by simp
  with Cons.IH [OF rest] show ?case by (cases a) simp_all
qed

lemma run_success_effects:
  "run w as s = (Inr u, s') \<Longrightarrow> effects s' = effects s @ concat (map trace_of as)"
proof (induction as arbitrary: s)
  case Nil
  then show ?case by simp
next
  case (Cons a as)
  obtain r s1 where ex: "exec w a s = (r, s1)" by (cases "exec w a s")
  with Cons.prems obtain u' where r: "r = Inr u'" and rest: "run w as s1 = (Inr u, s')"
    by (cases r) simp_all
  have "effects s1 = effects s @ trace_of a"
  proof (cases a)
    case (Assign sig p)
    with ex show ?thesis by (cases sig) auto
  qed (use ex in auto)
  with Cons.IH [OF rest] show ?case by simp
qed



lemma assigned_append: "assigned sig (xs @ ys) p = assigned sig ys (assigned sig xs p)"
  by (induction sig xs p rule: assigned.induct) simp_all

lemma assigned_none: "list_all (\<lambda>a. \<not> is_assign a) as \<Longrightarrow> assigned sig as p = p"
  by (induction sig as p rule: assigned.induct) simp_all

lemma run_Do_ok:
  "\<forall>c\<in>set cs. raises w c = None \<Longrightarrow>
   run w (map Do cs @ rest) s = run w rest (s\<lparr>effects := effects s @ map Called cs\<rparr>)"
  by (induction cs arbitrary: s) simp_all

lemma run_Do_fail:
  assumes "\<forall>c'\<in>set pre. raises w c' = None" and "raises w c = Some e"
  shows "run w (map Do (pre @ c # post) @ rest) s
         = (Inl e, s\<lparr>effects := effects s @ map Called (pre @ [c])\<rparr>)"
proof -
  have "run w (map Do (pre @ c # post) @ rest) s
        = run w (map Do pre @ (Do c # map Do post @ rest)) s"
    by simp
  also have "\<dots> = run w (Do c # map Do post @ rest) (s\<lparr>effects := effects s @ map Called pre\<rparr>)"
    by (rule run_Do_ok) (rule assms(1))
  also have "\<dots> = (Inl e, s\<lparr>effects := effects s @ map Called (pre @ [c])\<rparr>)"
    using assms(2) by simp
  finally show ?thesis .
qed










subsection \<open>The statements of \<^verbatim>\<open>init\<close> and \<^verbatim>\<open>shutdown\<close>\<close>

lemma run_completion:
  "run w (completion cfg) s =
     (Inr (), s\<lparr>initialized := True, effects := effects s @ concat (map trace_of (completion cfg))\<rparr>)"
  by (simp add: completion_def)


lemma logging_bridge_no_assign: "list_all (\<lambda>a. \<not> is_assign a) (logging_bridge cfg)"
  by (simp add: logging_bridge_def split: pyval.splits)


lemma assigned_construction:
  "assigned Traces (construction w cfg) p =
     (if truthy (enable_traces cfg) then Some (Provider Traces (make_resource cfg)) else p)"
  "assigned Metrics (construction w cfg) p =
     (if truthy (enable_metrics cfg) then Some (Provider Metrics (make_resource cfg)) else p)"
  "assigned Logs (construction w cfg) p =
     (if truthy (enable_logs cfg) then Some (Provider Logs (make_resource cfg)) else p)"
  by (simp_all add: construction_def assigned_append traces_section_def metrics_section_def
      logs_section_def system_metrics_section_def auto_instrumentation_section_def
      assigned_none [OF logging_bridge_no_assign])










lemma init_when_initialized: "initialized s \<Longrightarrow> init w a n e kw s = (Inr (), s)"
  by (simp add: init_def)

text \<open>The three ways through \<^verbatim>\<open>init\<close> on an uninitialized SDK.\<close>

lemma init_resolution_error:
  "\<not> initialized s \<Longrightarrow> resolve_config (os_environ w) a n e kw = Inl ex \<Longrightarrow>
   init w a n e kw s = (Inl ex, s)"
  by (simp add: init_def)


lemma init_construction:
  "\<not> initialized s \<Longrightarrow> resolve_config (os_environ w) a n e kw = Inr cfg \<Longrightarrow>
   truthy (api_key cfg) \<Longrightarrow> truthy (service_name cfg) \<Longrightarrow>
   init w a n e kw s = run w (construction w cfg @ completion cfg) s"
  by (simp add: init_def)

lemma init_success_resolved:
  assumes "\<not> initialized s"
    and "init w a n e kw s = (Inr u, s1)"
  shows "\<exists>cfg. resolve_config (os_environ w) a n e kw = Inr cfg
               \<and> truthy (api_key cfg) \<and> truthy (service_name cfg)"
proof (cases "resolve_config (os_environ w) a n e kw")
  case (Inl ex)
  with assms show ?thesis by (simp add: init_def)
next
  case (Inr cfg)
  with assms show ?thesis by (simp add: init_def split: if_splits)
qed

lemma init_run:
  assumes "\<not> initialized s"
    and "resolve_config (os_environ w) a n e kw = Inr cfg"
    and "init w a n e kw s = (Inr u, s1)"
  shows "run w (construction w cfg @ completion cfg) s = (Inr u, s1)"
  using assms by (simp add: init_def split: if_splits)

lemma init_success_initialized:
  assumes "init w a n e kw s = (Inr u, s1)"
  shows "initialized s1"
proof (cases "initialized s")
  case True
  with assms show ?thesis by (simp add: init_def)
next
  case False
  from init_success_resolved [OF False assms] obtain cfg
    where "resolve_config (os_environ w) a n e kw = Inr cfg" by blast
  from init_run [OF False this assms] show ?thesis
    by (auto simp: run_append run_completion split: prod.splits sum.splits)
qed

lemma init_success_slot:
  assumes "\<not> initialized s"
    and "resolve_config (os_environ w) a n e kw = Inr cfg"
    and "init w a n e kw s = (Inr u, s1)"
  shows "slot sig s1 = assigned sig (construction w cfg) (slot sig s)"
  using run_success_slot [OF init_run [OF assms], of sig]
  by (simp add: assigned_append completion_def)



lemma init_calls_when_initialized:
  "initialized s \<Longrightarrow> init_calls calls s = (replicate (length calls) (Inr ()), s)"
  by (induction calls) (auto simp: init_when_initialized)

lemma shutdown_success_flag: "shutdown w s = (Inr u, s2) \<Longrightarrow> \<not> initialized s2"
  by (cases "initialized s")
     (auto simp: shutdown_def run_append split: prod.splits sum.splits)

lemma shutdown_when_uninitialized: "\<not> initialized s \<Longrightarrow> shutdown w s = (Inr (), s)"
  by (simp add: shutdown_def)


lemma shutdown_failure:
  assumes "initialized s"
    and "owned_shutdowns s = pre @ c # post"
    and "\<forall>c'\<in>set pre. raises w c' = None"
    and "raises w c = Some e"
  shows "shutdown w s = (Inl e, s\<lparr>effects := effects s @ map Called (pre @ [c])\<rparr>)"
  using assms(1) by (simp only: shutdown_def assms(2) run_Do_fail [OF assms(3,4)] simp_thms if_False)

subsection \<open>Discovery\<close>

lemma registry_well_formed: "list_all well_formed INSTRUMENTORS"
  by (simp add: INSTRUMENTORS_def well_formed_def rsplit1_def)

lemma io_bind_events_mono: "set (snd m) \<subseteq> set (snd (io_bind m f))"
  by (auto simp: io_bind_def split: prod.splits sum.splits)

lemma io_except_events_mono: "set (snd m) \<subseteq> set (snd (io_except m h k))"
  by (auto simp: io_except_def split: prod.splits sum.splits)

lemma resolve_adapter_cases:
  assumes "expected_failure [ImportError, AttributeError] (raises w (Import_module mp))"
    and "expected_failure [ImportError, AttributeError] (raises w (Getattr_module mp cn))"
  shows "(\<exists>t. resolve_adapter w mp cn = (Inr (), t))
         \<or> (\<exists>e t. resolve_adapter w mp cn = (Inl e, t) \<and> isinstance [ImportError, AttributeError] e)"
  using assms
  by (auto simp: resolve_adapter_def io_bind_def attempt_def expected_failure_def
      split: option.splits)

lemma instrument_with_returns:
  assumes "expected_failure [ImportError, AttributeError] (raises w (Import_module mp))"
    and "expected_failure [ImportError, AttributeError] (raises w (Getattr_module mp cn))"
  shows "\<exists>b. fst (instrument_with w ex lib mp cn) = Inr b"
proof -
  from resolve_adapter_cases [OF assms] consider
    t where "resolve_adapter w mp cn = (Inr (), t)"
    | e t where "resolve_adapter w mp cn = (Inl e, t)" "isinstance [ImportError, AttributeError] e"
    by blast
  then show ?thesis
  proof cases
    case 1
    obtain b where "fst (io_except (apply_adapter w ex mp cn) is_Exception
            (\<lambda>e. io_bind (io_emit (failure_warning lib e)) (\<lambda>_. io_return False))) = Inr b"
    proof (cases "apply_adapter w ex mp cn")
      case (Pair r t')
      then show ?thesis
        using that
        by (cases r) (auto simp: io_except_def is_Exception_def io_bind_def io_emit_def io_return_def)
    qed
    with 1 show ?thesis
      by (auto simp: instrument_with_def io_bind_def io_except_def io_return_def
          failure_warning_def split: prod.splits)
  next
    case 2
    then have "fst (instrument_with w ex lib mp cn) = Inr False"
      by (simp add: instrument_with_def io_bind_def io_except_def io_return_def io_emit_def)
    then show ?thesis ..
  qed
qed

lemma instrument_entry_returns:
  assumes "probes_as_expected w entry" and "well_formed entry"
  shows "\<exists>b. fst (instrument_entry w ex entry) = Inr b"
proof -
  obtain lib path where entry: "entry = (lib, path)" by (cases entry)
  from assms(2) obtain mp cn where sp: "rsplit1 CHR '':'' path = [mp, cn]"
    by (auto simp: well_formed_def entry length_Suc_conv numeral_2_eq_2)
  show ?thesis
  proof (cases "raises w (Import_module lib)")
    case None
    from assms(1) sp
    have "expected_failure [ImportError, AttributeError] (raises w (Import_module mp))"
      and "expected_failure [ImportError, AttributeError] (raises w (Getattr_module mp cn))"
      by (simp_all add: probes_as_expected_def entry)
    from instrument_with_returns [OF this, of ex lib] obtain b
      where "fst (instrument_with w ex lib mp cn) = Inr b" ..
    then obtain t where "instrument_with w ex lib mp cn = (Inr b, t)"
      by (cases "instrument_with w ex lib mp cn") simp
    with None sp show ?thesis
      by (simp add: instrument_entry_def entry io_bind_def io_except_def io_return_def attempt_def)
  next
    case (Some e)
    with assms(1) have "isinstance [ImportError] e"
      by (simp add: probes_as_expected_def entry expected_failure_def)
    with Some have "fst (instrument_entry w ex entry) = Inr False"
      by (simp add: instrument_entry_def entry io_bind_def io_except_def io_return_def attempt_def)
    then show ?thesis ..
  qed
qed

lemma instrument_loop_trace:
  assumes "list_all (probes_as_expected w) reg" and "list_all well_formed reg"
  shows "\<exists>ins. instrument_loop w ex reg acc
           = (Inr ins, concat (map (\<lambda>entry. snd (instrument_entry w ex entry)) reg))"
  using assms
proof (induction reg arbitrary: acc)
  case Nil
  then show ?case by (simp add: io_return_def)
next
  case (Cons entry reg)
  from Cons.prems instrument_entry_returns [of w entry ex] obtain b
    where b: "fst (instrument_entry w ex entry) = Inr b" by auto
  from Cons.prems have "list_all (probes_as_expected w) reg" "list_all well_formed reg"
    by simp_all
  from Cons.IH [OF this, of "if b then acc @ [fst entry] else acc"] obtain ins
    where "instrument_loop w ex reg (if b then acc @ [fst entry] else acc)
           = (Inr ins, concat (map (\<lambda>entry. snd (instrument_entry w ex entry)) reg))" ..
  with b show ?case
    by (cases "instrument_entry w ex entry") (simp add: io_bind_def)
qed

lemma auto_instrument_over_trace:
  assumes "list_all (probes_as_expected w) reg" and "list_all well_formed reg"
  shows "fst (auto_instrument_over reg w arg) = Inr ()
         \<and> set (concat (map (\<lambda>entry. snd (instrument_entry w (py_or arg (PList [])) entry)) reg))
             \<subseteq> set (snd (auto_instrument_over reg w arg))"
proof -
  from instrument_loop_trace [OF assms, of "py_or arg (PList [])" "[]"] obtain ins
    where "instrument_loop w (py_or arg (PList [])) reg []
           = (Inr ins, concat (map (\<lambda>entry. snd (instrument_entry w (py_or arg (PList [])) entry)) reg))" ..
  then show ?thesis
    by (auto simp: auto_instrument_over_def Let_def io_bind_def io_emit_def io_return_def)
qed

lemma entry_probe_event:
  "Called (Import_module lib) \<in> set (snd (instrument_entry w ex (lib, path)))"
  unfolding instrument_entry_def prod.case
  apply (rule subsetD [OF io_bind_events_mono])
  apply (rule subsetD [OF io_except_events_mono])
  apply (rule subsetD [OF io_bind_events_mono])
  apply (simp add: attempt_def)
  done

lemma entry_failure_warning:
  assumes "adapter_reached w lib mp cn"
    and "rsplit1 CHR '':'' path = [mp, cn]"
    and "fst (apply_adapter w ex mp cn) = Inl e"
  shows "failure_warning lib e \<in> set (snd (instrument_entry w ex (lib, path)))"
proof -
  obtain t where t: "apply_adapter w ex mp cn = (Inl e, t)"
    using assms(3) by (cases "apply_adapter w ex mp cn") simp
  from assms(1) have r: "raises w (Import_module lib) = None" "raises w (Import_module mp) = None"
    "raises w (Getattr_module mp cn) = None"
    by (simp_all add: adapter_reached_def)
  have probe: "io_except (io_bind (attempt w (Import_module lib)) (\<lambda>_. io_return True))
                 (isinstance [ImportError]) (\<lambda>e. io_return False)
               = (Inr True, [Called (Import_module lib)])"
    by (simp add: io_except_def io_bind_def io_return_def attempt_def r(1))
  have resolve: "resolve_adapter w mp cn
                 = (Inr (), [Called (Import_module mp), Called (Getattr_module mp cn)])"
    by (simp add: resolve_adapter_def io_bind_def attempt_def r(2,3))
  have "instrument_with w ex lib mp cn
        = (Inr False, [Called (Import_module mp), Called (Getattr_module mp cn)] @ t
             @ [failure_warning lib e])"
    unfolding instrument_with_def resolve t
    by (simp add: io_bind_def io_except_def io_return_def io_emit_def is_Exception_def
        failure_warning_def)
  then show ?thesis
    unfolding instrument_entry_def prod.case probe
    by (simp add: io_bind_def assms(2))
qed

subsection \<open>The example environments, evaluated\<close>

lemma resolve_core: "resolve_config Map.empty ''k'' ''svc'' [] kwargs_core = Inr cfg_core"
  by (simp add: config_eval kwargs_core_def cfg_core_def)

lemma resolve_verbose: "resolve_config Map.empty ''k'' ''svc'' [] kwargs_verbose = Inr cfg_verbose"
  by (simp add: config_eval kwargs_verbose_def kwargs_core_def cfg_verbose_def cfg_core_def)



lemma resolve_dunder:
  "resolve_config Map.empty [] ''svc'' [] kwargs_dunder
   = Inl (Exc TypeError ''__class__ must be set to a class'')"
  by (simp add: config_eval kwargs_dunder_def other_attributes_def)

lemma cfg_core_fields:
  "api_key cfg_core = PStr ''k''" "service_name cfg_core = PStr ''svc''"
  "enable_traces cfg_core = PBool True" "enable_metrics cfg_core = PBool True"
  "enable_logs cfg_core = PBool True" "enable_system_metrics cfg_core = PBool False"
  "auto_instrument_flag cfg_core = PBool False" "log_level cfg_core = PStr ''INFO''"
  by (simp_all add: cfg_core_def env_config_def)

lemma quiet_environ: "os_environ quiet = Map.empty"
  by (simp add: quiet_def)

lemma fresh_uninitialized: "\<not> initialized fresh"
  by (simp add: fresh_def)

lemma init_core_run:
  assumes "os_environ w = Map.empty"
  shows "init w ''k'' ''svc'' [] kwargs_core fresh
         = run w (construction w cfg_core @ completion cfg_core) fresh"
  by (rule init_construction) (simp_all add: assms resolve_core fresh_def cfg_core_fields)

lemmas sections_eval = construction_def completion_def traces_section_def metrics_section_def
  logs_section_def logging_bridge_def system_metrics_section_def auto_instrumentation_section_def

lemma init_core_ok: "init quiet ''k'' ''svc'' [] kwargs_core fresh = (Inr (), after_init)"
proof -
  have "fst (init quiet ''k'' ''svc'' [] kwargs_core fresh) = Inr ()"
    by (subst init_core_run) (simp_all add: sections_eval cfg_core_fields quiet_def)
  then show ?thesis
    by (simp add: after_init_def prod_eq_iff)
qed

lemma resolve_core_quiet:
  "resolve_config (os_environ quiet) ''k'' ''svc'' [] kwargs_core = Inr cfg_core"
  by (simp add: quiet_environ resolve_core)

lemma after_init_state:
  "initialized after_init"
  "tracer_provider after_init = Some (Provider Traces (make_resource cfg_core))"
  "meter_provider after_init = Some (Provider Metrics (make_resource cfg_core))"
  "logger_provider after_init = Some (Provider Logs (make_resource cfg_core))"
proof -
  note ni = fresh_uninitialized
  show "initialized after_init"
    by (rule init_success_initialized) (rule init_core_ok)
  from init_success_slot [OF ni resolve_core_quiet init_core_ok, of Traces]
  show "tracer_provider after_init = Some (Provider Traces (make_resource cfg_core))"
    by (simp add: assigned_construction cfg_core_fields)
  from init_success_slot [OF ni resolve_core_quiet init_core_ok, of Metrics]
  show "meter_provider after_init = Some (Provider Metrics (make_resource cfg_core))"
    by (simp add: assigned_construction cfg_core_fields)
  from init_success_slot [OF ni resolve_core_quiet init_core_ok, of Logs]
  show "logger_provider after_init = Some (Provider Logs (make_resource cfg_core))"
    by (simp add: assigned_construction cfg_core_fields)
qed

lemma after_init_owned:
  "owned_shutdowns after_init
   = [Provider_shutdown Traces] @ Provider_shutdown Metrics # [Provider_shutdown Logs]"
  by (simp add: owned_shutdowns_def after_init_state)

lemma after_init_effects:
  "effects after_init = concat (map trace_of (construction quiet cfg_core @ completion cfg_core))"
  using run_success_effects [OF init_run [OF fresh_uninitialized resolve_core_quiet init_core_ok]]
  by (simp add: fresh_def)

lemma no_logs_shutdown_after_init: "Called (Provider_shutdown Logs) \<notin> set (effects after_init)"
  by (simp add: after_init_effects sections_eval cfg_core_fields)

lemma shutdown_fails_after_init:
  "shutdown shutdown_fails after_init
   = (Inl shutdown_error,
      after_init\<lparr>effects := effects after_init
         @ [Called (Provider_shutdown Traces), Called (Provider_shutdown Metrics)]\<rparr>)"
proof -
  have p: "\<forall>c'\<in>set [Provider_shutdown Traces]. raises shutdown_fails c' = None"
    and c: "raises shutdown_fails (Provider_shutdown Metrics) = Some shutdown_error"
    by (simp_all add: shutdown_fails_def quiet_def)
  from shutdown_failure [OF after_init_state(1) after_init_owned p c]
  show ?thesis by simp
qed

lemma shutdown_quiet_after_init:
  "shutdown quiet after_init
   = (Inr (), after_init\<lparr>initialized := False, effects := effects after_init
         @ [Called (Provider_shutdown Traces), Called (Provider_shutdown Metrics),
            Called (Provider_shutdown Logs)]\<rparr>)"
proof -
  have "\<forall>c\<in>set (owned_shutdowns after_init). raises quiet c = None"
    by (simp add: quiet_def)
  from run_Do_ok [OF this, of "[Set_initialized False]" after_init]
  show ?thesis
    by (simp add: shutdown_def after_init_state(1) after_init_owned)
qed





lemma init_rejected_keyword:
  "init quiet [] ''svc'' [] kwargs_dunder fresh
   = (Inl (Exc TypeError ''__class__ must be set to a class''), fresh)"
  by (rule init_resolution_error) (simp_all add: fresh_def quiet_environ resolve_dunder)

subsection \<open>The lifecycle\<close>

text \<open>
  C1. Once a call of \<^verbatim>\<open>init\<close> has succeeded, every later call of \<^verbatim>\<open>init\<close> (with
  no \<^verbatim>\<open>shutdown\<close> in between), whatever its arguments and environment, returns
  normally and leaves the whole state as the first call left it: the flag, the provider
  handles and the record of external calls and log records. So nothing is constructed
  and discovery does not run a second time.
\<close>

theorem init_idempotent:
  "init w a n e kw s = (Inr u, s1) \<Longrightarrow>
   is_initialized s1 \<and> init_calls later s1 = (replicate (length later) (Inr ()), s1)"
  by (simp add: is_initialized_def init_calls_when_initialized init_success_initialized)

theorem init_idempotent_witness:
  "init quiet ''k'' ''svc'' [] kwargs_core fresh = (Inr (), after_init)
   \<and> is_initialized after_init
   \<and> init_calls [(quiet, [], [], [], []), (metrics_fail, ''k2'', ''other'', ''http://x'', [])] after_init
       = ([Inr (), Inr ()], after_init)"
  using init_idempotent [OF init_core_ok,
      of "[(quiet, [], [], [], []), (metrics_fail, ''k2'', ''other'', ''http://x'', [])]"]
    init_core_ok
  by simp






text \<open>
  C4, as the code has it. When the SDK is initialized and the \<^verbatim>\<open>shutdown\<close> of an
  owned provider raises, after those before it in the order tracer, meter, logger
  returned, \<^verbatim>\<open>shutdown\<close> raises that exception: the providers after it are not
  attempted and the flag stays true.
\<close>

theorem provider_shutdown_failure_propagates:
  assumes "initialized s"
    and "owned_shutdowns s = pre @ c # post"
    and "\<forall>c'\<in>set pre. raises w c' = None"
    and "raises w c = Some e"
  shows "shutdown w s = (Inl e, s\<lparr>effects := effects s @ map Called (pre @ [c])\<rparr>)"
  using assms by (rule shutdown_failure)

theorem provider_shutdown_failure_propagates_witness:
  "initialized after_init
   \<and> owned_shutdowns after_init
       = [Provider_shutdown Traces, Provider_shutdown Metrics, Provider_shutdown Logs]
   \<and> raises shutdown_fails (Provider_shutdown Traces) = None
   \<and> raises shutdown_fails (Provider_shutdown Metrics) = Some shutdown_error
   \<and> shutdown shutdown_fails after_init
       = (Inl shutdown_error,
          after_init\<lparr>effects := effects after_init
             @ [Called (Provider_shutdown Traces), Called (Provider_shutdown Metrics)]\<rparr>)"
proof -
  have p: "\<forall>c'\<in>set [Provider_shutdown Traces]. raises shutdown_fails c' = None"
    and c: "raises shutdown_fails (Provider_shutdown Metrics) = Some shutdown_error"
    by (simp_all add: shutdown_fails_def quiet_def)
  from provider_shutdown_failure_propagates [OF after_init_state(1) after_init_owned p c]
    after_init_state(1) after_init_owned p c
  show ?thesis by simp
qed

text \<open>
  C4 as stated fails: with three owned providers and a meter provider whose
  \<^verbatim>\<open>shutdown\<close> raises, the logger provider's \<^verbatim>\<open>shutdown\<close> is never called and the
  SDK is still initialized afterwards.
\<close>

theorem shutdown_isolation_counterexample:
  "logger_provider after_init \<noteq> None
   \<and> fst (shutdown shutdown_fails after_init) = Inl shutdown_error
   \<and> Called (Provider_shutdown Logs) \<notin> set (effects (snd (shutdown shutdown_fails after_init)))
   \<and> initialized (snd (shutdown shutdown_fails after_init))"
  by (simp add: shutdown_fails_after_init after_init_state no_logs_shutdown_after_init)

text \<open>
  C7, as the code has it. After a successful \<^verbatim>\<open>init\<close>, a \<^verbatim>\<open>shutdown\<close> that
  returns normally leaves \<^verbatim>\<open>is_initialized()\<close> false; and \<^verbatim>\<open>shutdown\<close> on an
  uninitialized SDK returns normally and changes nothing.
\<close>

theorem shutdown_resets_flag:
  "(init w a n e kw s = (Inr u, s1) \<longrightarrow> shutdown w' s1 = (Inr u', s2) \<longrightarrow> \<not> is_initialized s2)
   \<and> (\<not> is_initialized t \<longrightarrow> shutdown w'' t = (Inr (), t))"
  by (auto simp: is_initialized_def shutdown_when_uninitialized dest: shutdown_success_flag)

theorem shutdown_resets_flag_witness:
  "init quiet ''k'' ''svc'' [] kwargs_core fresh = (Inr (), after_init)
   \<and> shutdown quiet after_init = (Inr (), snd (shutdown quiet after_init))
   \<and> \<not> is_initialized (snd (shutdown quiet after_init))
   \<and> \<not> is_initialized fresh
   \<and> shutdown quiet fresh = (Inr (), fresh)"
proof -
  have sd: "shutdown quiet after_init = (Inr (), snd (shutdown quiet after_init))"
    by (simp add: shutdown_quiet_after_init)
  have nf: "\<not> is_initialized fresh" by (simp add: is_initialized_def fresh_def)
  from shutdown_resets_flag [of quiet "''k''" "''svc''" "[]" kwargs_core fresh "()" after_init
      quiet "()" "snd (shutdown quiet after_init)" fresh quiet] init_core_ok sd nf
  show ?thesis by simp
qed

text \<open>
  C7 as stated fails: after a successful \<^verbatim>\<open>init\<close>, a \<^verbatim>\<open>shutdown\<close> in which the
  meter provider's \<^verbatim>\<open>shutdown\<close> raises leaves \<^verbatim>\<open>is_initialized()\<close> true.
\<close>

theorem shutdown_resets_flag_counterexample:
  "init quiet ''k'' ''svc'' [] kwargs_core fresh = (Inr (), after_init)
   \<and> fst (shutdown shutdown_fails after_init) = Inl shutdown_error
   \<and> is_initialized (snd (shutdown shutdown_fails after_init))"
  by (simp add: init_core_ok shutdown_fails_after_init is_initialized_def after_init_state(1))

subsection \<open>The logging bridge\<close>

lemma io_bind_all:
  assumes "list_all P (snd m)" and "\<And>x. list_all P (snd (f x))"
  shows "list_all P (snd (io_bind m f))"
proof (cases m)
  case (Pair r t)
  show ?thesis
  proof (cases r)
    case (Inl e)
    with Pair assms(1) show ?thesis by (simp add: io_bind_def)
  next
    case (Inr x)
    with Pair assms(1) assms(2) [of x] show ?thesis
      by (cases "f x") (simp add: io_bind_def)
  qed
qed

lemma io_except_all:
  assumes "list_all P (snd m)" and "\<And>e. list_all P (snd (k e))"
  shows "list_all P (snd (io_except m h k))"
proof (cases m)
  case (Pair r t)
  show ?thesis
  proof (cases r)
    case (Inl e)
    with Pair assms(1) assms(2) [of e] show ?thesis
      by (cases "k e") (simp add: io_except_def)
  next
    case (Inr x)
    with Pair assms(1) show ?thesis by (simp add: io_except_def)
  qed
qed

lemma io_seq_all: "(\<And>m. m \<in> set ms \<Longrightarrow> list_all P (snd m)) \<Longrightarrow> list_all P (snd (io_seq ms))"
  by (induction ms) (simp_all add: io_return_def io_bind_all)

lemma attempt_all: "P (Called c) \<Longrightarrow> list_all P (snd (attempt w c))"
  by (simp add: attempt_def)

lemma return_all: "list_all P (snd (io_return x))"
  by (simp add: io_return_def)

lemma raise_all: "list_all P (snd (io_raise e))"
  by (simp add: io_raise_def)

lemma emit_all: "P ev \<Longrightarrow> list_all P (snd (io_emit ev))"
  by (simp add: io_emit_def)

lemmas io_all = io_bind_all io_except_all attempt_all return_all raise_all emit_all

lemma apply_adapter_no_handler:
  "list_all (\<lambda>ev. \<not> is_handler ev) (snd (apply_adapter w ex mp cn))"
  unfolding apply_adapter_def instrument_kwargs_def call_instrument_def
  by (auto intro!: io_all split: sum.splits)

lemma instrument_with_no_handler:
  "list_all (\<lambda>ev. \<not> is_handler ev) (snd (instrument_with w ex lib mp cn))"
  unfolding instrument_with_def resolve_adapter_def
  by (auto intro!: io_all apply_adapter_no_handler simp: failure_warning_def)

lemma instrument_entry_no_handler:
  "list_all (\<lambda>ev. \<not> is_handler ev) (snd (instrument_entry w ex entry))"
  unfolding instrument_entry_def
  by (auto intro!: io_all instrument_with_no_handler split: prod.splits list.splits)

lemma instrument_loop_no_handler:
  "list_all (\<lambda>ev. \<not> is_handler ev) (snd (instrument_loop w ex reg acc))"
  by (induction reg arbitrary: acc)
     (auto intro!: io_all instrument_entry_no_handler)

lemma auto_instrument_no_handler:
  "list_all (\<lambda>ev. \<not> is_handler ev) (snd (auto_instrument w arg))"
  unfolding auto_instrument_def auto_instrument_over_def Let_def
  by (auto intro!: io_all instrument_loop_no_handler)

lemma start_system_metrics_no_handler:
  "list_all (\<lambda>ev. \<not> is_handler ev) (snd (start_system_metrics w arg))"
  unfolding start_system_metrics_def
  by (auto intro!: io_all io_seq_all)

lemma filter_none: "list_all (\<lambda>ev. \<not> P ev) xs \<Longrightarrow> filter P xs = []"
  by (induction xs) simp_all

lemma handlers_of_construction:
  assumes "truthy (enable_logs cfg)" and "log_level cfg = PStr name"
  shows "filter is_handler (concat (map trace_of (construction w cfg @ completion cfg)))
         = [Called (LoggingHandler (bridge_level name))]"
  using assms
  by (simp add: construction_def completion_def traces_section_def metrics_section_def
      logs_section_def logging_bridge_def system_metrics_section_def
      auto_instrumentation_section_def
      filter_none [OF auto_instrument_no_handler] filter_none [OF start_system_metrics_no_handler])

lemma bridge_level_cases:
  "bridge_level name =
     (if upper name = ''DEBUG'' then DEBUG
      else if upper name = ''WARNING'' then WARNING
      else if upper name = ''ERROR'' then ERROR
      else INFO)"
  by (simp add: bridge_level_def log_levels_def)

lemma cfg_verbose_fields:
  "api_key cfg_verbose = PStr ''k''" "service_name cfg_verbose = PStr ''svc''"
  "enable_traces cfg_verbose = PBool True" "enable_metrics cfg_verbose = PBool True"
  "enable_logs cfg_verbose = PBool True" "enable_system_metrics cfg_verbose = PBool False"
  "auto_instrument_flag cfg_verbose = PBool False" "log_level cfg_verbose = PStr ''Verbose''"
  by (simp_all add: cfg_verbose_def cfg_core_def env_config_def)

lemma resolve_verbose_quiet:
  "resolve_config (os_environ quiet) ''k'' ''svc'' [] kwargs_verbose = Inr cfg_verbose"
  by (simp add: quiet_environ resolve_verbose)

lemma init_verbose_ok:
  "fst (init quiet ''k'' ''svc'' [] kwargs_verbose fresh) = Inr ()"
proof -
  have "init quiet ''k'' ''svc'' [] kwargs_verbose fresh
        = run quiet (construction quiet cfg_verbose @ completion cfg_verbose) fresh"
    by (rule init_construction)
       (simp_all add: resolve_verbose_quiet fresh_def cfg_verbose_fields)
  then show ?thesis
    by (simp add: sections_eval cfg_verbose_fields quiet_def)
qed

lemma upper_Verbose: "upper ''Verbose'' = ''VERBOSE''"
  by (simp add: upper_def upper_char_def)

lemma bridge_level_examples:
  "bridge_level ''debug'' = DEBUG" "bridge_level ''Warning'' = WARNING"
  "bridge_level ''error'' = ERROR" "bridge_level ''info'' = INFO" "bridge_level ''trace'' = INFO"
  by (simp_all add: bridge_level_def log_levels_def upper_def upper_char_def)

text \<open>
  C10. When \<^verbatim>\<open>init\<close> succeeds with logs enabled and a string as log level, it
  constructs exactly one logging bridge handler, and the handler's level depends on the
  upper-cased name only: \<^verbatim>\<open>DEBUG\<close>, \<^verbatim>\<open>WARNING\<close> or \<^verbatim>\<open>ERROR\<close> when the upper-cased
  name is that word, and \<^verbatim>\<open>INFO\<close> for every other name.
\<close>

theorem bridge_handler_level:
  assumes "\<not> initialized s"
    and "init w a n e kw s = (Inr u, s1)"
    and "resolve_config (os_environ w) a n e kw = Inr cfg"
    and "truthy (enable_logs cfg)"
    and "log_level cfg = PStr name"
  shows "filter is_handler (drop (length (effects s)) (effects s1))
         = [Called (LoggingHandler
              (if upper name = ''DEBUG'' then DEBUG
               else if upper name = ''WARNING'' then WARNING
               else if upper name = ''ERROR'' then ERROR
               else INFO))]"
proof -
  from run_success_effects [OF init_run [OF assms(1,3,2)]]
  have "drop (length (effects s)) (effects s1)
        = concat (map trace_of (construction w cfg @ completion cfg))"
    by simp
  then show ?thesis
    by (simp only: handlers_of_construction [OF assms(4,5)] bridge_level_cases)
qed

theorem bridge_handler_level_witness:
  "\<not> initialized fresh
   \<and> init quiet ''k'' ''svc'' [] kwargs_verbose fresh
       = (Inr (), snd (init quiet ''k'' ''svc'' [] kwargs_verbose fresh))
   \<and> resolve_config (os_environ quiet) ''k'' ''svc'' [] kwargs_verbose = Inr cfg_verbose
   \<and> truthy (enable_logs cfg_verbose)
   \<and> log_level cfg_verbose = PStr ''Verbose''
   \<and> filter is_handler
        (drop (length (effects fresh)) (effects (snd (init quiet ''k'' ''svc'' [] kwargs_verbose fresh))))
       = [Called (LoggingHandler INFO)]"
proof -
  note ni = fresh_uninitialized
  have ok: "init quiet ''k'' ''svc'' [] kwargs_verbose fresh
            = (Inr (), snd (init quiet ''k'' ''svc'' [] kwargs_verbose fresh))"
    using init_verbose_ok by (simp add: prod_eq_iff)
  have l: "truthy (enable_logs cfg_verbose)" and n: "log_level cfg_verbose = PStr ''Verbose''"
    by (simp_all add: cfg_verbose_fields)
  from bridge_handler_level [OF ni ok resolve_verbose_quiet l n] ni ok l n resolve_verbose_quiet
  show ?thesis
    by (simp add: upper_Verbose)
qed

subsection \<open>Discovery and the host metrics callbacks\<close>

lemma probes_as_expected_if:
  assumes "\<And>m. expected_failure [ImportError] (raises w (Import_module m))"
    and "\<And>mp cn. raises w (Getattr_module mp cn) = None"
  shows "probes_as_expected w entry"
proof -
  have "expected_failure [ImportError, AttributeError] (raises w (Import_module m))" for m
    using assms(1) [of m]
    by (auto simp: expected_failure_def isinstance_def split: option.splits)
  with assms show ?thesis
    by (auto simp: probes_as_expected_def expected_failure_def split: list.splits)
qed

lemma partial_install_probes: "list_all (probes_as_expected partial_install) INSTRUMENTORS"
proof -
  have "probes_as_expected partial_install entry" for entry
    by (rule probes_as_expected_if)
       (simp_all add: partial_install_def quiet_def expected_failure_def isinstance_def
          import_error_def)
  then show ?thesis by (simp add: list_all_iff)
qed

lemma requests_locator:
  "rsplit1 CHR '':'' ''opentelemetry.instrumentation.requests:RequestsInstrumentor''
   = [''opentelemetry.instrumentation.requests'', ''RequestsInstrumentor'']"
  by (simp add: rsplit1_def)

lemma requests_adapter_fails:
  "fst (apply_adapter partial_install (py_or PNone (PList []))
          ''opentelemetry.instrumentation.requests'' ''RequestsInstrumentor'') = Inl adapter_error"
  by (simp add: apply_adapter_def instrument_kwargs_def call_instrument_def io_bind_def
      io_return_def attempt_def py_or_def partial_install_def quiet_def)

lemma loop_propagates:
  assumes "raises w (Import_module lib) = Some e" and "\<not> isinstance [ImportError] e"
  shows "instrument_loop w ex ((lib, path) # rest) acc = (Inl e, [Called (Import_module lib)])"
proof -
  from assms have "instrument_entry w ex (lib, path) = (Inl e, [Called (Import_module lib)])"
    by (simp add: instrument_entry_def io_bind_def io_except_def attempt_def)
  then show ?thesis
    by (simp add: io_bind_def)
qed

lemma auto_instrument_broken_library:
  "auto_instrument broken_library PNone = (Inl broken_error, [Called (Import_module ''flask'')])"
proof -
  have r: "raises broken_library (Import_module ''flask'') = Some broken_error"
    and n: "\<not> isinstance [ImportError] broken_error"
    by (simp_all add: broken_library_def quiet_def isinstance_def broken_error_def)
  show ?thesis
    unfolding auto_instrument_def auto_instrument_over_def INSTRUMENTORS_def Let_def
      loop_propagates [OF r n]
    by (simp add: io_bind_def)
qed

text \<open>
  C5, as the code has it. When each probe of discovery has one of the outcomes its
  \<^verbatim>\<open>except\<close> clause names (the library imports or raises \<^verbatim>\<open>ImportError\<close>; the
  adapter's module and class resolve or raise \<^verbatim>\<open>ImportError\<close> or
  \<^verbatim>\<open>AttributeError\<close>), \<^verbatim>\<open>auto_instrument\<close> returns normally whatever the adapters
  do, every entry of the table is probed, and an exception raised while an adapter is
  applied is logged as a warning that names the library.
\<close>

theorem discovery_contains_adapter_failures:
  assumes "list_all (probes_as_expected w) INSTRUMENTORS"
  shows "fst (auto_instrument w arg) = Inr ()
         \<and> (\<forall>(lib, path)\<in>set INSTRUMENTORS.
               Called (Import_module lib) \<in> set (snd (auto_instrument w arg)))
         \<and> (\<forall>(lib, path)\<in>set INSTRUMENTORS. \<forall>mp cn e.
               adapter_reached w lib mp cn \<and> rsplit1 CHR '':'' path = [mp, cn]
               \<and> fst (apply_adapter w (py_or arg (PList [])) mp cn) = Inl e
               \<longrightarrow> failure_warning lib e \<in> set (snd (auto_instrument w arg)))"
proof -
  let ?ex = "py_or arg (PList [])"
  from auto_instrument_over_trace [OF assms registry_well_formed, of arg]
  have ok: "fst (auto_instrument w arg) = Inr ()"
    and sub: "\<And>entry ev. entry \<in> set INSTRUMENTORS \<Longrightarrow> ev \<in> set (snd (instrument_entry w ?ex entry))
               \<Longrightarrow> ev \<in> set (snd (auto_instrument w arg))"
    by (auto simp: auto_instrument_def)
  show ?thesis
  proof (intro conjI ballI)
    show "fst (auto_instrument w arg) = Inr ()" by (rule ok)
  next
    fix entry assume mem: "entry \<in> set INSTRUMENTORS"
    obtain lib path where entry: "entry = (lib, path)" by (cases entry)
    from sub [OF mem, of "Called (Import_module lib)"] entry_probe_event [of lib w ?ex path]
    show "case entry of (lib, path) \<Rightarrow>
                 Called (Import_module lib) \<in> set (snd (auto_instrument w arg))"
      by (simp add: entry)
  next
    fix entry assume mem: "entry \<in> set INSTRUMENTORS"
    obtain lib path where entry: "entry = (lib, path)" by (cases entry)
    have "failure_warning lib e \<in> set (snd (auto_instrument w arg))"
      if "adapter_reached w lib mp cn" "rsplit1 CHR '':'' path = [mp, cn]"
        "fst (apply_adapter w ?ex mp cn) = Inl e" for mp cn e
      using sub [OF mem, of "failure_warning lib e"] entry_failure_warning [OF that]
      by (simp add: entry)
    then show "case entry of (lib, path) \<Rightarrow> \<forall>mp cn e.
               adapter_reached w lib mp cn \<and> rsplit1 CHR '':'' path = [mp, cn]
               \<and> fst (apply_adapter w ?ex mp cn) = Inl e
               \<longrightarrow> failure_warning lib e \<in> set (snd (auto_instrument w arg))"
      unfolding entry prod.case by blast
  qed
qed

theorem discovery_contains_adapter_failures_witness:
  "list_all (probes_as_expected partial_install) INSTRUMENTORS
   \<and> fst (auto_instrument partial_install PNone) = Inr ()
   \<and> Called (Import_module ''kafka'') \<in> set (snd (auto_instrument partial_install PNone))
   \<and> failure_warning ''requests'' adapter_error \<in> set (snd (auto_instrument partial_install PNone))"
proof -
  have k: "(''kafka'', ''opentelemetry.instrumentation.kafka:KafkaInstrumentor'') \<in> set INSTRUMENTORS"
    and r: "(''requests'', ''opentelemetry.instrumentation.requests:RequestsInstrumentor'')
            \<in> set INSTRUMENTORS"
    by (simp_all add: INSTRUMENTORS_def)
  have reached: "adapter_reached partial_install ''requests''
                   ''opentelemetry.instrumentation.requests'' ''RequestsInstrumentor''"
    by (simp add: adapter_reached_def partial_install_def quiet_def)
  note th = discovery_contains_adapter_failures [OF partial_install_probes, of PNone]
  from th have "fst (auto_instrument partial_install PNone) = Inr ()" by blast
  moreover from th k
  have "Called (Import_module ''kafka'') \<in> set (snd (auto_instrument partial_install PNone))"
    by blast
  moreover from th r reached requests_locator requests_adapter_fails
  have "failure_warning ''requests'' adapter_error \<in> set (snd (auto_instrument partial_install PNone))"
    by blast
  ultimately show ?thesis using partial_install_probes by simp
qed

text \<open>
  C5 as stated fails: when importing \<^verbatim>\<open>flask\<close> raises an exception that is not an
  \<^verbatim>\<open>ImportError\<close>, \<^verbatim>\<open>auto_instrument\<close> raises it to its caller and the next entry
  of the table is never probed.
\<close>

theorem discovery_never_raises_counterexample:
  "fst (auto_instrument broken_library PNone) = Inl broken_error
   \<and> Called (Import_module ''django'') \<notin> set (snd (auto_instrument broken_library PNone))"
  by (simp add: auto_instrument_broken_library)

text \<open>
  C8. When the probe of a host metrics callback raises, the callback returns the empty
  list of observations.
\<close>

theorem callbacks_contain_probe_failure:
  "(raises w Cpu_percent = Some e \<longrightarrow> fst (cpu_callback w) = Inr [])
   \<and> (raises w Virtual_memory = Some e \<longrightarrow> fst (memory_callback w) = Inr [])
   \<and> (raises w (Disk_usage ''/'') = Some e \<longrightarrow> fst (disk_callback w) = Inr [])"
  by (auto simp: cpu_callback_def memory_callback_def disk_callback_def io_except_def io_bind_def
      io_return_def attempt_def is_Exception_def split: option.splits)

theorem callbacks_contain_probe_failure_witness:
  "raises probes_down Cpu_percent = Some probe_error
   \<and> raises probes_down Virtual_memory = Some probe_error
   \<and> raises probes_down (Disk_usage ''/'') = Some probe_error
   \<and> fst (cpu_callback probes_down) = Inr []
   \<and> fst (memory_callback probes_down) = Inr []
   \<and> fst (disk_callback probes_down) = Inr []"
  using callbacks_contain_probe_failure [of probes_down probe_error]
  by (simp add: probes_down_def quiet_def)

end
